theory Spec2Isabelle
  imports Complex_Main
begin

section \<open>Data model\<close>

text \<open>
  The program is a tool server over an SQLite store with the tables
  \<open>customer_info\<close>, \<open>customer_persona\<close> and \<open>wealth_products\<close>.  Text is
  kept as the store keeps it, as UTF-8 bytes: equality, \<open>startswith\<close> on an
  ASCII prefix and slicing after it agree with Python's code-point strings.
  Numbers (SQLite INTEGER and REAL cells, Python \<open>int\<close> and finite \<open>float\<close>)
  are rationals, on which Python and SQLite compare exactly.
\<close>

text \<open>
  Modelled from the spec: the table declarations (the database file is not
  among the sources).  The columns and their types follow the data model of
  the specification; a column is nullable where the specification or the
  code reckons with a null (persona columns, the product risk level, the
  minimum purchase amount).  Persona columns that the code only passes
  through are untyped cells.
\<close>

datatype cell = Null | Number rat | Text string

record customer_info_row =
  ci_customer_id :: int
  ci_name :: string
  ci_id_card :: string
  ci_id_card_masked :: string
  ci_available_funds :: rat

record customer_persona_row =
  cp_customer_id :: int
  cp_risk_level :: "string option"
  cp_wealth_tier :: cell
  cp_life_stage :: cell
  cp_preferred_term_min :: cell
  cp_preferred_term_max :: cell
  cp_investment_preference :: cell
  cp_financial_goals :: cell
  cp_liquidity_need :: cell
  cp_marketing_tags :: cell

record wealth_product =
  wp_product_code :: string
  wp_product_name :: string
  wp_sales_type :: string
  wp_product_type :: string
  wp_product_status :: string
  wp_fund_raising :: string
  wp_risk_level :: "string option"
  wp_issuer :: string
  wp_min_purchase_amount :: "rat option"

record database =
  customer_info :: "customer_info_row list"
  customer_persona :: "customer_persona_row list"
  wealth_products :: "wealth_product list"

text \<open>
  One row of the customer query, as \<open>dict(row)\<close> gives it: the columns of
  \<open>customer_info\<close> followed by the nine selected persona columns.
\<close>

record customer =
  c_customer_id :: int
  c_name :: string
  c_id_card :: string
  c_id_card_masked :: string
  c_available_funds :: rat
  c_risk_level :: "string option"
  c_wealth_tier :: cell
  c_life_stage :: cell
  c_preferred_term_min :: cell
  c_preferred_term_max :: cell
  c_investment_preference :: cell
  c_financial_goals :: cell
  c_liquidity_need :: cell
  c_marketing_tags :: cell

section \<open>Effects: exceptions and the statements sent to the store\<close>

datatype exn = OverflowError | KeyError

datatype customer_clause =
    CustomerIdEq int      \<comment> \<open>\<open>i.customer_id = ?\<close>\<close>
  | NameLike string       \<comment> \<open>\<open>i.name LIKE ?\<close>\<close>
  | IdCardEq string       \<comment> \<open>\<open>(i.id_card = ? OR i.id_card_masked = ?)\<close>\<close>

datatype product_column =
  Col_sales_type | Col_product_type | Col_product_status | Col_fund_raising
  | Col_risk_level | Col_product_code

datatype product_clause =
    ColumnEq product_column string   \<comment> \<open>\<open>AND {key} = ?\<close>\<close>
  | ProductNameLike string           \<comment> \<open>\<open>AND product_name LIKE ?\<close>\<close>
  | IssuerLike string                \<comment> \<open>\<open>AND issuer LIKE ?\<close>\<close>
  | MinPurchaseLe rat                \<comment> \<open>\<open>AND min_purchase_amount <= ?\<close>\<close>

text \<open>
  A statement is what \<open>conn.execute\<close> receives: the query text, here its
  clauses with the bound parameter inside each, and the limit.
\<close>

datatype statement =
    SelectCustomers "customer_clause list" "int option"
  | SelectProducts "product_clause list" int
  | SelectProductByCode string

text \<open>
  A call yields the statements it sent to the store, in order, and either an
  exception (\<open>Inl\<close>) or its return value (\<open>Inr\<close>).
\<close>

type_synonym 'a io = "statement list \<times> (exn + 'a)"

section \<open>The store\<close>

text \<open>
  SQLite as the queries use it.  Integers bound as parameters must fit 64
  bits (the Python binding raises \<open>OverflowError\<close> otherwise); a negative
  \<open>LIMIT\<close> means no limit; a comparison with a null cell is not true;
  \<open>LIKE\<close> knows \<open>%\<close> and \<open>_\<close>, ignores the case of ASCII letters and
  reads both operands up to their first NUL byte.
\<close>

definition int64 :: "int \<Rightarrow> bool" where
  "int64 n = (- (2 ^ 63) \<le> n \<and> n < 2 ^ 63)"

definition sql_limit :: "int \<Rightarrow> 'a list \<Rightarrow> 'a list" where
  "sql_limit n rows = (if n < 0 then rows else take (nat n) rows)"

definition ascii_lower :: "char \<Rightarrow> char" where
  "ascii_lower c =
     (if 65 \<le> (of_char c :: nat) \<and> (of_char c :: nat) \<le> 90
      then char_of (of_char c + 32 :: nat) else c)"

definition utf8_continuation :: "char \<Rightarrow> bool" where
  "utf8_continuation c = (128 \<le> (of_char c :: nat) \<and> (of_char c :: nat) < 192)"

fun utf8_next :: "string \<Rightarrow> string" where
  "utf8_next [] = []"
| "utf8_next (c # s) =
     (if 192 \<le> (of_char c :: nat) then dropWhile utf8_continuation s else s)"

function pattern_compare :: "string \<Rightarrow> string \<Rightarrow> bool" where
  "pattern_compare [] s = (s = [])"
| "pattern_compare (p # ps) s =
     (if p = CHR ''%'' then
        (if pattern_compare ps s then True
         else if s = [] then False
         else pattern_compare (p # ps) (utf8_next s))
      else if s = [] then False
      else if p = CHR ''_'' then pattern_compare ps (utf8_next s)
      else ascii_lower p = ascii_lower (hd s) \<and> pattern_compare ps (tl s))"
  by pat_completeness auto
termination
proof (relation "measure (\<lambda>(p, s). length p + length s)")
  have shorter: "length (utf8_next s) < length s" if "s \<noteq> []" for s
    using that by (cases s) (auto simp: less_Suc_eq_le length_dropWhile_le)
  fix p :: char and ps s :: string
  assume "s \<noteq> []"
  then show "((p # ps, utf8_next s), (p # ps, s)) \<in> measure (\<lambda>(p, s). length p + length s)"
    using shorter [of s] by simp
  then show "((ps, utf8_next s), (p # ps, s)) \<in> measure (\<lambda>(p, s). length p + length s)"
    by simp
qed auto

text \<open>
  The operands reach the comparison as C strings, so each ends at its first
  NUL byte.
\<close>

definition c_string :: "string \<Rightarrow> string" where
  "c_string s = takeWhile (\<lambda>c. c \<noteq> CHR 0x00) s"

definition sql_like :: "string \<Rightarrow> string \<Rightarrow> bool" where
  "sql_like pattern s = pattern_compare (c_string pattern) (c_string s)"

definition joined_row :: "customer_info_row \<Rightarrow> customer_persona_row option \<Rightarrow> customer" where
  "joined_row i persona =
     \<lparr> c_customer_id = ci_customer_id i,
       c_name = ci_name i,
       c_id_card = ci_id_card i,
       c_id_card_masked = ci_id_card_masked i,
       c_available_funds = ci_available_funds i,
       c_risk_level = (case persona of None \<Rightarrow> None | Some p \<Rightarrow> cp_risk_level p),
       c_wealth_tier = (case persona of None \<Rightarrow> Null | Some p \<Rightarrow> cp_wealth_tier p),
       c_life_stage = (case persona of None \<Rightarrow> Null | Some p \<Rightarrow> cp_life_stage p),
       c_preferred_term_min = (case persona of None \<Rightarrow> Null | Some p \<Rightarrow> cp_preferred_term_min p),
       c_preferred_term_max = (case persona of None \<Rightarrow> Null | Some p \<Rightarrow> cp_preferred_term_max p),
       c_investment_preference = (case persona of None \<Rightarrow> Null | Some p \<Rightarrow> cp_investment_preference p),
       c_financial_goals = (case persona of None \<Rightarrow> Null | Some p \<Rightarrow> cp_financial_goals p),
       c_liquidity_need = (case persona of None \<Rightarrow> Null | Some p \<Rightarrow> cp_liquidity_need p),
       c_marketing_tags = (case persona of None \<Rightarrow> Null | Some p \<Rightarrow> cp_marketing_tags p) \<rparr>"

text \<open>
  \<open>customer_info i LEFT JOIN customer_persona p ON i.customer_id = p.customer_id\<close>:
  every customer row once for each persona row of its id, and once with
  null persona columns when it has none.
\<close>

fun left_join :: "customer_info_row list \<Rightarrow> customer_persona_row list \<Rightarrow> customer list" where
  "left_join [] personas = []"
| "left_join (i # infos) personas =
     (case filter (\<lambda>p. cp_customer_id p = ci_customer_id i) personas of
        [] \<Rightarrow> [joined_row i None]
      | matching \<Rightarrow> map (\<lambda>p. joined_row i (Some p)) matching)
     @ left_join infos personas"

fun customer_clause_holds :: "customer_clause \<Rightarrow> customer \<Rightarrow> bool" where
  "customer_clause_holds (CustomerIdEq n) r = (c_customer_id r = n)"
| "customer_clause_holds (NameLike pattern) r = sql_like pattern (c_name r)"
| "customer_clause_holds (IdCardEq v) r = (c_id_card r = v \<or> c_id_card_masked r = v)"

fun customer_clause_binds :: "customer_clause \<Rightarrow> bool" where
  "customer_clause_binds (CustomerIdEq n) = int64 n"
| "customer_clause_binds (NameLike pattern) = True"
| "customer_clause_binds (IdCardEq v) = True"

definition select_customers ::
  "database \<Rightarrow> customer_clause list \<Rightarrow> int option \<Rightarrow> exn + customer list" where
  "select_customers db where_clauses row_limit =
     (if list_all customer_clause_binds where_clauses then
        (let rows = filter (\<lambda>r. list_all (\<lambda>c. customer_clause_holds c r) where_clauses)
                      (left_join (customer_info db) (customer_persona db))
         in Inr (case row_limit of None \<Rightarrow> rows | Some n \<Rightarrow> sql_limit n rows))
      else Inl OverflowError)"

fun product_column_value :: "product_column \<Rightarrow> wealth_product \<Rightarrow> string option" where
  "product_column_value Col_sales_type p = Some (wp_sales_type p)"
| "product_column_value Col_product_type p = Some (wp_product_type p)"
| "product_column_value Col_product_status p = Some (wp_product_status p)"
| "product_column_value Col_fund_raising p = Some (wp_fund_raising p)"
| "product_column_value Col_risk_level p = wp_risk_level p"
| "product_column_value Col_product_code p = Some (wp_product_code p)"

fun product_clause_holds :: "product_clause \<Rightarrow> wealth_product \<Rightarrow> bool" where
  "product_clause_holds (ColumnEq key v) p = (product_column_value key p = Some v)"
| "product_clause_holds (ProductNameLike pattern) p = sql_like pattern (wp_product_name p)"
| "product_clause_holds (IssuerLike pattern) p = sql_like pattern (wp_issuer p)"
| "product_clause_holds (MinPurchaseLe bound) p =
     (case wp_min_purchase_amount p of None \<Rightarrow> False | Some m \<Rightarrow> m \<le> bound)"

definition select_products ::
  "database \<Rightarrow> product_clause list \<Rightarrow> int \<Rightarrow> exn + wealth_product list" where
  "select_products db clauses row_limit =
     (if int64 row_limit then
        Inr (sql_limit row_limit
               (filter (\<lambda>p. list_all (\<lambda>c. product_clause_holds c p) clauses) (wealth_products db)))
      else Inl OverflowError)"

text \<open>\<open>SELECT * FROM wealth_products WHERE product_code = ?\<close> with \<open>fetchone\<close>.\<close>

definition select_product_by_code :: "database \<Rightarrow> string \<Rightarrow> wealth_product option" where
  "select_product_by_code db code = find (\<lambda>p. wp_product_code p = code) (wealth_products db)"

section \<open>Python values\<close>

text \<open>Truth of an optional argument: \<open>None\<close>, \<open>0\<close> and the empty string are false.\<close>

definition truthy_int :: "int option \<Rightarrow> bool" where
  "truthy_int v = (case v of None \<Rightarrow> False | Some n \<Rightarrow> n \<noteq> 0)"

definition truthy_str :: "string option \<Rightarrow> bool" where
  "truthy_str v = (case v of None \<Rightarrow> False | Some s \<Rightarrow> s \<noteq> [])"

text \<open>\<open>a or b\<close> on optional strings, and \<open>x or 0\<close> on an optional number.\<close>

definition py_or :: "string option \<Rightarrow> string option \<Rightarrow> string option" where
  "py_or a b = (if truthy_str a then a else b)"

definition or_zero :: "rat option \<Rightarrow> rat" where
  "or_zero x = (case x of None \<Rightarrow> 0 | Some v \<Rightarrow> if v \<noteq> 0 then v else 0)"

definition startswith :: "string \<Rightarrow> string \<Rightarrow> bool" where
  "startswith s pre = (take (length pre) s = pre)"

text \<open>\<open>d.get(key, default)\<close> where the key may be \<open>None\<close>, which no table holds.\<close>

definition dict_get :: "(string \<rightharpoonup> 'v) \<Rightarrow> string option \<Rightarrow> 'v \<Rightarrow> 'v" where
  "dict_get d key dflt =
     (case key of None \<Rightarrow> dflt
      | Some k \<Rightarrow> (case d k of None \<Rightarrow> dflt | Some v \<Rightarrow> v))"

section \<open>Authentication wrapper\<close>

text \<open>
  \<open>require_auth(func)\<close>.  Its argument \<open>get_http_headers\<close> is the outcome of
  the call of that name: \<open>None\<close> when the call raises, which the wrapper
  catches, and the header dictionary otherwise.  The wrapper returns the
  mapping \<open>{"error": msg, "code": n}\<close> or what \<open>func\<close> returns; an exception
  of \<open>func\<close> passes through.
\<close>

datatype 'a wrapped = ErrorCode string int | Return 'a

text \<open>The two header values the wrapper reads, under either spelling of the key.\<close>

definition api_key_header :: "(string \<rightharpoonup> string) \<Rightarrow> string option" where
  "api_key_header headers = py_or (headers ''x-api-key'') (headers ''X-API-Key'')"

definition authorization_header :: "(string \<rightharpoonup> string) \<Rightarrow> string option" where
  "authorization_header headers = py_or (headers ''authorization'') (headers ''Authorization'')"

definition require_auth ::
  "string \<Rightarrow> (string \<rightharpoonup> string) option \<Rightarrow> 'a io \<Rightarrow> 'a wrapped io" where
  "require_auth API_KEY get_http_headers func =
     (let proceed = (fst func, map_sum id Return (snd func)) in
      case get_http_headers of
        None \<Rightarrow> proceed
      | Some headers \<Rightarrow>
          (let api_key = api_key_header headers;
               auth_header = authorization_header headers
           in if truthy_str api_key then
                (if the api_key \<noteq> API_KEY
                 then ([], Inr (ErrorCode ''Invalid API Key'' 401))
                 else proceed)
              else if truthy_str auth_header then
                (if startswith (the auth_header) ''Bearer '' then
                   (let token = drop 7 (the auth_header) in
                    if token \<noteq> API_KEY
                    then ([], Inr (ErrorCode ''Invalid Bearer Token'' 401))
                    else proceed)
                 else ([], Inr (ErrorCode ''Invalid Authorization format'' 401)))
              else ([], Inr (ErrorCode ''Missing authentication. Provide X-API-Key header.'' 401))))"

text \<open>
  The channels of the server and the library function the wrapper calls.
  \<open>fastmcp.server.dependencies.get_http_headers\<close> never raises: without a
  current HTTP request, as on the stdio channel, it returns the empty
  dictionary; with one it returns the header dictionary of the request.
\<close>

datatype channel = Stdio | Http "string \<rightharpoonup> string"

fun fastmcp_get_http_headers :: "channel \<Rightarrow> (string \<rightharpoonup> string) option" where
  "fastmcp_get_http_headers Stdio = Some Map.empty"
| "fastmcp_get_http_headers (Http headers) = Some headers"

section \<open>Customer search\<close>

definition search_customers ::
  "database \<Rightarrow> int option \<Rightarrow> string option \<Rightarrow> string option \<Rightarrow> customer list io" where
  "search_customers db customer_id name id_card =
     (let where_clauses =
            (if truthy_int customer_id then [CustomerIdEq (the customer_id)] else []) @
            (if truthy_str name then [NameLike (''%'' @ the name @ ''%'')] else []) @
            (if truthy_str id_card then [IdCardEq (the id_card)] else []);
          row_limit = (if where_clauses \<noteq> [] then None else Some 10)
      in ([SelectCustomers where_clauses row_limit],
          select_customers db where_clauses row_limit))"

section \<open>Product search\<close>

text \<open>
  The default of \<open>product_status\<close>, the on-sale label (zai shou, code points
  U+5728 U+552E), and the default of \<open>limit\<close>.
\<close>

definition on_sale :: string where
  "on_sale = [CHR 0xE5, CHR 0x9C, CHR 0xA8, CHR 0xE5, CHR 0x94, CHR 0xAE]"

definition default_limit :: int where
  "default_limit = 10"

text \<open>The loop over \<open>filters.items()\<close>.\<close>

fun filter_clauses :: "(product_column \<times> string option) list \<Rightarrow> product_clause list" where
  "filter_clauses [] = []"
| "filter_clauses ((key, v) # filters) =
     (if truthy_str v then [ColumnEq key (the v)] else []) @ filter_clauses filters"

definition search_wealth_products ::
  "database \<Rightarrow> string option \<Rightarrow> string option \<Rightarrow> string option \<Rightarrow> string option \<Rightarrow> string
     \<Rightarrow> string option \<Rightarrow> string option \<Rightarrow> string option \<Rightarrow> rat option \<Rightarrow> int
     \<Rightarrow> wealth_product list io" where
  "search_wealth_products db product_name product_code sales_type product_type product_status
       fund_raising risk_level issuer max_min_purchase limit =
     (let filters =
            [(Col_sales_type, sales_type),
             (Col_product_type, product_type),
             (Col_product_status, Some product_status),
             (Col_fund_raising, fund_raising),
             (Col_risk_level, risk_level),
             (Col_product_code, product_code)];
          clauses =
            filter_clauses filters @
            (if truthy_str product_name then [ProductNameLike (''%'' @ the product_name @ ''%'')] else []) @
            (if truthy_str issuer then [IssuerLike (''%'' @ the issuer @ ''%'')] else []) @
            (case max_min_purchase of None \<Rightarrow> [] | Some bound \<Rightarrow> [MinPurchaseLe bound])
      in ([SelectProducts clauses limit], select_products db clauses limit))"

section \<open>Suitability analysis\<close>

text \<open>
  The labels of the two risk vocabularies, in the order of the source's
  tables.  Customer risk: bao shou xing (U+4FDD U+5B88 U+578B), wen jian xing
  (U+7A33 U+5065 U+578B), ping heng xing (U+5E73 U+8861 U+578B), cheng zhang
  xing (U+6210 U+957F U+578B), jin qu xing (U+8FDB U+53D6 U+578B).
\<close>

definition label_conservative :: string where
  "label_conservative =
     [CHR 0xE4, CHR 0xBF, CHR 0x9D, CHR 0xE5, CHR 0xAE, CHR 0x88, CHR 0xE5, CHR 0x9E, CHR 0x8B]"

definition label_stable :: string where
  "label_stable =
     [CHR 0xE7, CHR 0xA8, CHR 0xB3, CHR 0xE5, CHR 0x81, CHR 0xA5, CHR 0xE5, CHR 0x9E, CHR 0x8B]"

definition label_balanced :: string where
  "label_balanced =
     [CHR 0xE5, CHR 0xB9, CHR 0xB3, CHR 0xE8, CHR 0xA1, CHR 0xA1, CHR 0xE5, CHR 0x9E, CHR 0x8B]"

definition label_growth :: string where
  "label_growth =
     [CHR 0xE6, CHR 0x88, CHR 0x90, CHR 0xE9, CHR 0x95, CHR 0xBF, CHR 0xE5, CHR 0x9E, CHR 0x8B]"

definition label_aggressive :: string where
  "label_aggressive =
     [CHR 0xE8, CHR 0xBF, CHR 0x9B, CHR 0xE5, CHR 0x8F, CHR 0x96, CHR 0xE5, CHR 0x9E, CHR 0x8B]"

text \<open>
  Product risk: di feng xian (U+4F4E U+98CE U+9669), pian di feng xian
  (U+504F U+4F4E U+98CE U+9669), zhong deng feng xian (U+4E2D U+7B49 U+98CE
  U+9669), pian gao feng xian (U+504F U+9AD8 U+98CE U+9669), gao feng xian
  (U+9AD8 U+98CE U+9669).
\<close>

definition label_low :: string where
  "label_low =
     [CHR 0xE4, CHR 0xBD, CHR 0x8E, CHR 0xE9, CHR 0xA3, CHR 0x8E, CHR 0xE9, CHR 0x99, CHR 0xA9]"

definition label_slightly_low :: string where
  "label_slightly_low =
     [CHR 0xE5, CHR 0x81, CHR 0x8F, CHR 0xE4, CHR 0xBD, CHR 0x8E, CHR 0xE9, CHR 0xA3, CHR 0x8E,
      CHR 0xE9, CHR 0x99, CHR 0xA9]"

definition label_medium :: string where
  "label_medium =
     [CHR 0xE4, CHR 0xB8, CHR 0xAD, CHR 0xE7, CHR 0xAD, CHR 0x89, CHR 0xE9, CHR 0xA3, CHR 0x8E,
      CHR 0xE9, CHR 0x99, CHR 0xA9]"

definition label_slightly_high :: string where
  "label_slightly_high =
     [CHR 0xE5, CHR 0x81, CHR 0x8F, CHR 0xE9, CHR 0xAB, CHR 0x98, CHR 0xE9, CHR 0xA3, CHR 0x8E,
      CHR 0xE9, CHR 0x99, CHR 0xA9]"

definition label_high :: string where
  "label_high =
     [CHR 0xE9, CHR 0xAB, CHR 0x98, CHR 0xE9, CHR 0xA3, CHR 0x8E, CHR 0xE9, CHR 0x99, CHR 0xA9]"

text \<open>
  The two recommendation labels: shi pei (U+9002 U+914D, suitable) and
  bu jian yi (U+4E0D U+5EFA U+8BAE, not recommended).
\<close>

definition label_suitable :: string where
  "label_suitable = [CHR 0xE9, CHR 0x80, CHR 0x82, CHR 0xE9, CHR 0x85, CHR 0x8D]"

definition label_not_recommended :: string where
  "label_not_recommended =
     [CHR 0xE4, CHR 0xB8, CHR 0x8D, CHR 0xE5, CHR 0xBB, CHR 0xBA, CHR 0xE8, CHR 0xAE, CHR 0xAE]"

definition risk_map :: "string \<rightharpoonup> int" where
  "risk_map =
     [label_conservative \<mapsto> 1, label_stable \<mapsto> 2, label_balanced \<mapsto> 3,
      label_growth \<mapsto> 4, label_aggressive \<mapsto> 5]"

definition prod_risk_map :: "string \<rightharpoonup> int" where
  "prod_risk_map =
     [label_low \<mapsto> 1, label_slightly_low \<mapsto> 2, label_medium \<mapsto> 3,
      label_slightly_high \<mapsto> 4, label_high \<mapsto> 5]"

text \<open>The local values of \<open>analyze_suitability\<close>, as functions of the two rows.\<close>

definition cust_risk_val :: "customer \<Rightarrow> int" where
  "cust_risk_val customer = dict_get risk_map (c_risk_level customer) 0"

definition prod_risk_val :: "wealth_product \<Rightarrow> int" where
  "prod_risk_val product = dict_get prod_risk_map (wp_risk_level product) 99"

definition risk_match :: "customer \<Rightarrow> wealth_product \<Rightarrow> bool" where
  "risk_match customer product = (prod_risk_val product \<le> cust_risk_val customer)"

definition funds_match :: "customer \<Rightarrow> wealth_product \<Rightarrow> bool" where
  "funds_match customer product =
     (c_available_funds customer \<ge> or_zero (wp_min_purchase_amount product))"

text \<open>The returned mapping, one field for each key.\<close>

record suitability =
  suitability_score :: rat
  is_risk_compatible :: bool
  is_funds_sufficient :: bool
  customer_risk :: "string option"
  product_risk :: "string option"
  available_funds :: rat
  min_purchase :: "rat option"
  recommendation_status :: string

datatype analysis =
    ErrorMapping string       \<comment> \<open>\<open>{"error": message}\<close>\<close>
  | Suitability suitability

text \<open>
  \<open>results = search_customers(customer_id=customer_id)\<close>: the name
  \<open>search_customers\<close> in the body of \<open>analyze_suitability\<close> is the wrapped
  function, so the customer lookup passes the header check again.
\<close>

definition customer_lookup ::
  "string \<Rightarrow> (string \<rightharpoonup> string) option \<Rightarrow> database \<Rightarrow> int \<Rightarrow> customer list wrapped io" where
  "customer_lookup API_KEY get_http_headers db customer_id =
     require_auth API_KEY get_http_headers (search_customers db (Some customer_id) None None)"

text \<open>
  \<open>analyze_suitability(customer_id, product_code)\<close>.  Were the lookup to
  return the error mapping of the wrapper, \<open>results[0]\<close> would raise
  \<open>KeyError\<close>.  The product statement is sent only after a customer row
  was found.
\<close>

definition analyze_suitability ::
  "string \<Rightarrow> (string \<rightharpoonup> string) option \<Rightarrow> database \<Rightarrow> int \<Rightarrow> string \<Rightarrow> analysis io" where
  "analyze_suitability API_KEY get_http_headers db customer_id product_code =
     (case customer_lookup API_KEY get_http_headers db customer_id of
        (sent, Inl e) \<Rightarrow> (sent, Inl e)
      | (sent, Inr (ErrorCode msg code)) \<Rightarrow> (sent, Inl KeyError)
      | (sent, Inr (Return [])) \<Rightarrow> (sent, Inr (ErrorMapping ''Customer not found''))
      | (sent, Inr (Return (customer # others))) \<Rightarrow>
          (sent @ [SelectProductByCode product_code],
           case select_product_by_code db product_code of
             None \<Rightarrow> Inr (ErrorMapping ''Product not found'')
           | Some product \<Rightarrow>
               Inr (Suitability
                 \<lparr> suitability_score =
                     (if risk_match customer product \<and> funds_match customer product
                      then 0.95 else 0.4),
                   is_risk_compatible = risk_match customer product,
                   is_funds_sufficient = funds_match customer product,
                   customer_risk = c_risk_level customer,
                   product_risk = wp_risk_level product,
                   available_funds = c_available_funds customer,
                   min_purchase = wp_min_purchase_amount product,
                   recommendation_status =
                     (if risk_match customer product \<and> funds_match customer product
                      then label_suitable else label_not_recommended) \<rparr>)))"

text \<open>Which statements read the product table.\<close>

fun product_statement :: "statement \<Rightarrow> bool" where
  "product_statement (SelectCustomers clauses row_limit) = False"
| "product_statement (SelectProducts clauses row_limit) = True"
| "product_statement (SelectProductByCode code) = True"

section \<open>The risk vocabularies of the specification\<close>

text \<open>
  The glossary of the specification orders the customer labels
  conservative(1) < stable(2) < balanced(3) < growth(4) < aggressive(5) and
  the product labels low(1) < slightly-low(2) < medium(3) <
  slightly-high(4) < high(5).  These definitions follow that wording; the
  tables \<open>risk_map\<close> and \<open>prod_risk_map\<close> above are the source's.
\<close>

datatype customer_risk = Conservative | Stable | Balanced | Growth | Aggressive

datatype product_risk = Low | SlightlyLow | Medium | SlightlyHigh | High

fun spec_customer_rank :: "customer_risk \<Rightarrow> int" where
  "spec_customer_rank Conservative = 1"
| "spec_customer_rank Stable = 2"
| "spec_customer_rank Balanced = 3"
| "spec_customer_rank Growth = 4"
| "spec_customer_rank Aggressive = 5"

fun spec_customer_label :: "customer_risk \<Rightarrow> string" where
  "spec_customer_label Conservative = label_conservative"
| "spec_customer_label Stable = label_stable"
| "spec_customer_label Balanced = label_balanced"
| "spec_customer_label Growth = label_growth"
| "spec_customer_label Aggressive = label_aggressive"

fun spec_product_rank :: "product_risk \<Rightarrow> int" where
  "spec_product_rank Low = 1"
| "spec_product_rank SlightlyLow = 2"
| "spec_product_rank Medium = 3"
| "spec_product_rank SlightlyHigh = 4"
| "spec_product_rank High = 5"

fun spec_product_label :: "product_risk \<Rightarrow> string" where
  "spec_product_label Low = label_low"
| "spec_product_label SlightlyLow = label_slightly_low"
| "spec_product_label Medium = label_medium"
| "spec_product_label SlightlyHigh = label_slightly_high"
| "spec_product_label High = label_high"

section \<open>A small store\<close>

text \<open>
  The rows of the scenarios of the specification: a conservative customer
  with funds 50000, a customer without persona and without funds, a
  low-risk and a high-risk product with minimum purchase 10000, and a
  product without minimum purchase.
\<close>

definition customer_1 :: customer_info_row where
  "customer_1 =
     \<lparr> ci_customer_id = 1, ci_name = ''Chen'', ci_id_card = ''350203199001011234'',
       ci_id_card_masked = ''3502**********1234'', ci_available_funds = 50000 \<rparr>"

definition customer_2 :: customer_info_row where
  "customer_2 =
     \<lparr> ci_customer_id = 2, ci_name = ''Lin'', ci_id_card = ''350203198505054321'',
       ci_id_card_masked = ''3502**********4321'', ci_available_funds = 0 \<rparr>"

definition persona_1 :: customer_persona_row where
  "persona_1 =
     \<lparr> cp_customer_id = 1, cp_risk_level = Some label_conservative,
       cp_wealth_tier = Text ''A'', cp_life_stage = Null,
       cp_preferred_term_min = Number 3, cp_preferred_term_max = Number 12,
       cp_investment_preference = Null, cp_financial_goals = Null,
       cp_liquidity_need = Null, cp_marketing_tags = Null \<rparr>"

definition product_P1 :: wealth_product where
  "product_P1 =
     \<lparr> wp_product_code = ''P1'', wp_product_name = ''Deposit One'', wp_sales_type = ''own'',
       wp_product_type = ''deposit'', wp_product_status = on_sale, wp_fund_raising = ''public'',
       wp_risk_level = Some label_low, wp_issuer = ''XM Bank'',
       wp_min_purchase_amount = Some 10000 \<rparr>"

definition product_P2 :: wealth_product where
  "product_P2 =
     \<lparr> wp_product_code = ''P2'', wp_product_name = ''Fund Two'', wp_sales_type = ''agency'',
       wp_product_type = ''fund'', wp_product_status = on_sale, wp_fund_raising = ''public'',
       wp_risk_level = Some label_high, wp_issuer = ''XM Bank'',
       wp_min_purchase_amount = Some 10000 \<rparr>"

definition product_P3 :: wealth_product where
  "product_P3 =
     \<lparr> wp_product_code = ''P3'', wp_product_name = ''Trust Three'', wp_sales_type = ''agency'',
       wp_product_type = ''trust'', wp_product_status = on_sale, wp_fund_raising = ''private'',
       wp_risk_level = None, wp_issuer = ''XM Trust'',
       wp_min_purchase_amount = None \<rparr>"

definition example_db :: database where
  "example_db =
     \<lparr> customer_info = [customer_1, customer_2],
       customer_persona = [persona_1],
       wealth_products = [product_P1, product_P2, product_P3] \<rparr>"

section \<open>Auxiliary facts\<close>

lemmas example_defs = example_db_def customer_1_def customer_2_def persona_1_def
  product_P1_def product_P2_def product_P3_def

lemmas label_defs = label_conservative_def label_stable_def label_balanced_def label_growth_def
  label_aggressive_def label_low_def label_slightly_low_def label_medium_def
  label_slightly_high_def label_high_def

lemma analyze_found:
  assumes "customer_lookup API_KEY hdrs db customer_id = (sent, Inr (Return (customer # others)))"
    and "select_product_by_code db product_code = Some product"
  shows "analyze_suitability API_KEY hdrs db customer_id product_code =
     (sent @ [SelectProductByCode product_code],
      Inr (Suitability
                 \<lparr> suitability_score =
                     (if risk_match customer product \<and> funds_match customer product
                      then 0.95 else 0.4),
                   is_risk_compatible = risk_match customer product,
                   is_funds_sufficient = funds_match customer product,
                   customer_risk = c_risk_level customer,
                   product_risk = wp_risk_level product,
                   available_funds = c_available_funds customer,
                   min_purchase = wp_min_purchase_amount product,
                   recommendation_status =
                     (if risk_match customer product \<and> funds_match customer product
                      then label_suitable else label_not_recommended) \<rparr>))"
  using assms by (simp add: analyze_suitability_def)

lemma labels_differ: "label_suitable \<noteq> label_not_recommended"
  by (simp add: label_suitable_def label_not_recommended_def)

lemma local_lookup:
  "customer_lookup API_KEY None db customer_id = 
     (fst (search_customers db (Some customer_id) None None),
      map_sum id Return (snd (search_customers db (Some customer_id) None None)))"
  by (simp add: customer_lookup_def require_auth_def)

lemma lookup_customer_1:
  "customer_lookup ''k'' None example_db 1 =
     ([SelectCustomers [CustomerIdEq 1] None],
      Inr (Return [joined_row customer_1 (Some persona_1)]))"
  by (simp add: local_lookup search_customers_def truthy_int_def truthy_str_def
      select_customers_def int64_def joined_row_def example_defs)

lemma lookup_customer_9999:
  "customer_lookup ''k'' None example_db 9999 =
     ([SelectCustomers [CustomerIdEq 9999] None], Inr (Return []))"
  by (simp add: local_lookup search_customers_def truthy_int_def truthy_str_def
      select_customers_def int64_def joined_row_def example_defs)

lemma fetch_P1: "select_product_by_code example_db ''P1'' = Some product_P1"
  by (simp add: select_product_by_code_def example_defs)

lemma fetch_X: "select_product_by_code example_db ''X'' = None"
  by (simp add: select_product_by_code_def example_defs)

lemma customer_rank_of_label:
  "dict_get risk_map (Some (spec_customer_label cr)) d = spec_customer_rank cr"
  by (cases cr) (simp_all add: dict_get_def risk_map_def label_defs)

lemma product_rank_of_label:
  "dict_get prod_risk_map (Some (spec_product_label pr)) d = spec_product_rank pr"
  by (cases pr) (simp_all add: dict_get_def prod_risk_map_def label_defs)

lemma risk_map_dom: "risk_map l = Some v \<Longrightarrow> l \<in> range spec_customer_label"
proof -
  assume a: "risk_map l = Some v"
  have "l = spec_customer_label Conservative \<or> l = spec_customer_label Stable
      \<or> l = spec_customer_label Balanced \<or> l = spec_customer_label Growth
      \<or> l = spec_customer_label Aggressive"
    using a by (auto simp: risk_map_def split: if_splits)
  then show ?thesis by blast
qed

lemma prod_risk_map_dom: "prod_risk_map l = Some v \<Longrightarrow> l \<in> range spec_product_label"
proof -
  assume a: "prod_risk_map l = Some v"
  have "l = spec_product_label Low \<or> l = spec_product_label SlightlyLow
      \<or> l = spec_product_label Medium \<or> l = spec_product_label SlightlyHigh
      \<or> l = spec_product_label High"
    using a by (auto simp: prod_risk_map_def split: if_splits)
  then show ?thesis by blast
qed

lemma risk_map_range: "risk_map l = Some v \<Longrightarrow> 1 \<le> v \<and> v \<le> 5"
  by (auto simp: risk_map_def split: if_splits)

lemma prod_risk_map_range: "prod_risk_map l = Some v \<Longrightarrow> 1 \<le> v \<and> v \<le> 5"
  by (auto simp: prod_risk_map_def split: if_splits)

lemma cust_risk_val_le: "cust_risk_val customer \<le> 5"
  by (auto simp: cust_risk_val_def dict_get_def split: option.splits dest: risk_map_range)

lemma prod_risk_val_ge: "1 \<le> prod_risk_val product"
  by (auto simp: prod_risk_val_def dict_get_def split: option.splits dest: prod_risk_map_range)

lemma joined_row_id: "c_customer_id (joined_row i persona) = ci_customer_id i"
  by (simp add: joined_row_def)

lemma left_join_ids:
  "r \<in> set (left_join infos personas) \<Longrightarrow> c_customer_id r \<in> ci_customer_id ` set infos"
  by (induction infos) (auto simp: joined_row_id split: list.splits)

lemma distinct_key_once:
  "distinct (map f xs) \<Longrightarrow> length (filter (\<lambda>x. f x = k) xs) \<le> Suc 0"
proof (induction xs)
  case Nil
  then show ?case by simp
next
  case (Cons x xs)
  show ?case
  proof (cases "f x = k")
    case True
    with Cons.prems have "filter (\<lambda>y. f y = k) xs = []"
      by (auto simp: filter_empty_conv image_iff)
    with True show ?thesis by simp
  next
    case False
    with Cons show ?thesis by simp
  qed
qed

lemma left_join_key_once:
  assumes "distinct (map ci_customer_id infos)" and "distinct (map cp_customer_id personas)"
  shows "length (filter (\<lambda>r. c_customer_id r = k) (left_join infos personas)) \<le> Suc 0"
  using assms(1)
proof (induction infos)
  case Nil
  then show ?case by simp
next
  case (Cons i infos)
  let ?block = "case filter (\<lambda>p. cp_customer_id p = ci_customer_id i) personas of
        [] \<Rightarrow> [joined_row i None]
      | matching \<Rightarrow> map (\<lambda>p. joined_row i (Some p)) matching"
  have block_len: "length ?block \<le> Suc 0"
    using distinct_key_once [OF assms(2), of "ci_customer_id i"]
    by (auto split: list.splits)
  have block_ids: "\<forall>r \<in> set ?block. c_customer_id r = ci_customer_id i"
    by (auto simp: joined_row_id split: list.splits)
  show ?case
  proof (cases "ci_customer_id i = k")
    case True
    with Cons.prems have "k \<notin> ci_customer_id ` set infos" by auto
    then have "filter (\<lambda>r. c_customer_id r = k) (left_join infos personas) = []"
      by (auto simp: filter_empty_conv dest: left_join_ids)
    moreover have "length (filter (\<lambda>r. c_customer_id r = k) ?block) \<le> Suc 0"
      using block_len by (meson le_trans length_filter_le)
    ultimately show ?thesis by simp
  next
    case False
    with block_ids have "filter (\<lambda>r. c_customer_id r = k) ?block = []"
      by (auto simp: filter_empty_conv)
    with Cons show ?thesis by simp
  qed
qed

lemma sql_limit_subset: "set (sql_limit n rows) \<subseteq> set rows"
  by (auto simp: sql_limit_def dest: in_set_takeD)

lemma sql_limit_length: "0 \<le> n \<Longrightarrow> int (length (sql_limit n rows)) \<le> n"
  by (simp add: sql_limit_def)

lemma filter_clauses_member:
  "(key, Some v) \<in> set filters \<Longrightarrow> v \<noteq> [] \<Longrightarrow> ColumnEq key v \<in> set (filter_clauses filters)"
  by (induction filters rule: filter_clauses.induct) (auto simp: truthy_str_def)

lemma select_products_rows:
  assumes "select_products db clauses row_limit = Inr rows" and "p \<in> set rows"
    and "c \<in> set clauses"
  shows "product_clause_holds c p"
proof -
  from assms(1) have "rows = sql_limit row_limit
      (filter (\<lambda>p. list_all (\<lambda>c. product_clause_holds c p) clauses) (wealth_products db))"
    by (simp add: select_products_def split: if_splits)
  with assms(2) sql_limit_subset
  have "list_all (\<lambda>c. product_clause_holds c p) clauses" by fastforce
  with assms(3) show ?thesis by (simp add: list_all_iff)
qed

lemma search_products_select:
  "snd (search_wealth_products db product_name product_code sales_type product_type
          product_status fund_raising risk_level issuer max_min_purchase limit) = Inr rows
   \<Longrightarrow> \<exists>clauses. select_products db clauses limit = Inr rows"
  by (simp only: search_wealth_products_def Let_def snd_conv) blast

lemma on_sale_nonempty: "on_sale \<noteq> []"
  by (simp add: on_sale_def)

lemma search_on_sale_affordable:
  "search_wealth_products example_db None None (Some ''own'') None on_sale None None None
       (Some 20000) default_limit =
     ([SelectProducts [ColumnEq Col_sales_type ''own'', ColumnEq Col_product_status on_sale,
                       MinPurchaseLe 20000] 10],
      Inr [product_P1])"
  by (simp add: search_wealth_products_def truthy_str_def select_products_def int64_def
      sql_limit_def default_limit_def on_sale_def example_defs)

lemmas header_defs = api_key_header_def authorization_header_def py_or_def truthy_str_def
  startswith_def

lemma lookup_sends_no_product_statement:
  "filter product_statement (fst (customer_lookup API_KEY hdrs db customer_id)) = []"
  by (simp add: customer_lookup_def require_auth_def search_customers_def Let_def
      split: option.splits)

section \<open>Claims about the suitability analysis\<close>

text \<open>
  C1.  When the customer lookup yields at least one row and the product is
  found, \<open>analyze_suitability\<close> returns a result mapping whose score is 0.95
  and whose recommendation is the suitable label exactly when the risk
  check and the funds check both hold, and whose score is 0.4 with the
  not-recommended label otherwise.  The mapping also carries the two
  checks, the two raw risk labels and the two raw amounts.
\<close>

theorem analyze_suitability_result:
  assumes "customer_lookup API_KEY hdrs db customer_id = (sent, Inr (Return (customer # others)))"
    and "select_product_by_code db product_code = Some product"
  shows "\<exists>r. analyze_suitability API_KEY hdrs db customer_id product_code =
            (sent @ [SelectProductByCode product_code], Inr (Suitability r))
     \<and> ((suitability_score r = 0.95 \<and> recommendation_status r = label_suitable)
          = (risk_match customer product \<and> funds_match customer product))
     \<and> ((suitability_score r = 0.4 \<and> recommendation_status r = label_not_recommended)
          = (\<not> (risk_match customer product \<and> funds_match customer product)))
     \<and> is_risk_compatible r = risk_match customer product
     \<and> is_funds_sufficient r = funds_match customer product
     \<and> customer_risk r = c_risk_level customer
     \<and> product_risk r = wp_risk_level product
     \<and> available_funds r = c_available_funds customer
     \<and> min_purchase r = wp_min_purchase_amount product"
  using labels_differ by (simp add: analyze_found [OF assms])

text \<open>Scenario 1: the conservative customer and the low-risk product.\<close>

theorem analyze_suitability_result_witness:
  "customer_lookup ''k'' None example_db 1 =
     ([SelectCustomers [CustomerIdEq 1] None],
      Inr (Return [joined_row customer_1 (Some persona_1)]))
   \<and> select_product_by_code example_db ''P1'' = Some product_P1
   \<and> (\<exists>r. analyze_suitability ''k'' None example_db 1 ''P1'' =
            ([SelectCustomers [CustomerIdEq 1] None, SelectProductByCode ''P1''],
             Inr (Suitability r))
        \<and> suitability_score r = 0.95 \<and> recommendation_status r = label_suitable
        \<and> is_risk_compatible r \<and> is_funds_sufficient r
        \<and> customer_risk r = Some label_conservative \<and> product_risk r = Some label_low
        \<and> available_funds r = 50000 \<and> min_purchase r = Some 10000)"
proof -
  have rm: "risk_match (joined_row customer_1 (Some persona_1)) product_P1"
    by (simp add: risk_match_def cust_risk_val_def prod_risk_val_def dict_get_def risk_map_def
        prod_risk_map_def joined_row_def example_defs label_defs)
  have fm: "funds_match (joined_row customer_1 (Some persona_1)) product_P1"
    by (simp add: funds_match_def or_zero_def joined_row_def example_defs)
  have fields: "c_risk_level (joined_row customer_1 (Some persona_1)) = Some label_conservative"
    "wp_risk_level product_P1 = Some label_low"
    "c_available_funds (joined_row customer_1 (Some persona_1)) = 50000"
    "wp_min_purchase_amount product_P1 = Some 10000"
    by (simp_all add: joined_row_def example_defs)
  from analyze_suitability_result [OF lookup_customer_1 fetch_P1]
  show ?thesis using rm fm fields lookup_customer_1 fetch_P1 by auto
qed

text \<open>
  C2.  When the customer's risk label is one of the five customer labels
  and the product's risk label is one of the five product labels, the risk
  check holds if and only if the product's rank in the glossary is at most
  the customer's rank.
\<close>

theorem risk_match_by_rank:
  assumes "c_risk_level customer = Some (spec_customer_label cr)"
    and "wp_risk_level product = Some (spec_product_label pr)"
  shows "risk_match customer product = (spec_product_rank pr \<le> spec_customer_rank cr)"
  using assms
  by (simp add: risk_match_def cust_risk_val_def prod_risk_val_def
      customer_rank_of_label product_rank_of_label)

text \<open>Scenarios 1 and 2: conservative against low risk and against high risk.\<close>

theorem risk_match_by_rank_witness:
  "c_risk_level (joined_row customer_1 (Some persona_1)) = Some (spec_customer_label Conservative)
   \<and> wp_risk_level product_P2 = Some (spec_product_label High)
   \<and> wp_risk_level product_P1 = Some (spec_product_label Low)
   \<and> \<not> risk_match (joined_row customer_1 (Some persona_1)) product_P2
   \<and> risk_match (joined_row customer_1 (Some persona_1)) product_P1"
proof -
  have c: "c_risk_level (joined_row customer_1 (Some persona_1)) = Some (spec_customer_label Conservative)"
    by (simp add: joined_row_def example_defs)
  have p2: "wp_risk_level product_P2 = Some (spec_product_label High)"
    by (simp add: example_defs)
  have p1: "wp_risk_level product_P1 = Some (spec_product_label Low)"
    by (simp add: example_defs)
  show ?thesis
    using c p1 p2 risk_match_by_rank [OF c p2] risk_match_by_rank [OF c p1] by simp
qed

text \<open>
  C3.  A customer risk label that is null or outside the customer
  vocabulary has rank 0, so the risk check fails against every product of
  rank at least 1; a product risk label that is null or outside the product
  vocabulary has rank 99, so the risk check fails for every customer.
\<close>

theorem unrecognised_labels_never_match:
  "((c_risk_level customer = None
       \<or> (\<exists>l. c_risk_level customer = Some l \<and> l \<notin> range spec_customer_label))
     \<longrightarrow> cust_risk_val customer = 0
         \<and> (\<forall>p. 1 \<le> prod_risk_val p \<longrightarrow> \<not> risk_match customer p))
   \<and> ((wp_risk_level product = None
       \<or> (\<exists>l. wp_risk_level product = Some l \<and> l \<notin> range spec_product_label))
     \<longrightarrow> prod_risk_val product = 99 \<and> (\<forall>c. \<not> risk_match c product))"
proof (intro conjI impI)
  assume a: "c_risk_level customer = None
       \<or> (\<exists>l. c_risk_level customer = Some l \<and> l \<notin> range spec_customer_label)"
  then show z: "cust_risk_val customer = 0"
    by (auto simp: cust_risk_val_def dict_get_def split: option.splits dest: risk_map_dom)
  show "\<forall>p. 1 \<le> prod_risk_val p \<longrightarrow> \<not> risk_match customer p"
    by (simp add: risk_match_def z)
next
  assume a: "wp_risk_level product = None
       \<or> (\<exists>l. wp_risk_level product = Some l \<and> l \<notin> range spec_product_label)"
  then show z: "prod_risk_val product = 99"
    by (auto simp: prod_risk_val_def dict_get_def split: option.splits dest: prod_risk_map_dom)
  show "\<forall>c. \<not> risk_match c product"
  proof
    fix c
    have "cust_risk_val c \<le> 5" by (rule cust_risk_val_le)
    then show "\<not> risk_match c product" by (simp add: risk_match_def z)
  qed
qed

text \<open>The customer without persona, and the product without risk label.\<close>

theorem unrecognised_labels_never_match_witness:
  "c_risk_level (joined_row customer_2 None) = None
   \<and> cust_risk_val (joined_row customer_2 None) = 0
   \<and> \<not> risk_match (joined_row customer_2 None) product_P1
   \<and> wp_risk_level product_P3 = None
   \<and> prod_risk_val product_P3 = 99
   \<and> \<not> risk_match (joined_row customer_1 (Some persona_1)) product_P3"
proof -
  have c: "c_risk_level (joined_row customer_2 None) = None"
    by (simp add: joined_row_def)
  have p: "wp_risk_level product_P3 = None"
    by (simp add: product_P3_def)
  show ?thesis
    using c p prod_risk_val_ge [of product_P1]
      unrecognised_labels_never_match [of "joined_row customer_2 None" product_P3]
    by simp
qed

text \<open>
  C4.  The funds check holds if and only if the available funds are at
  least the minimum purchase amount, a null minimum counting as 0; with
  funds 0 and a null minimum the check holds.
\<close>

theorem funds_match_threshold:
  "funds_match customer product =
     (c_available_funds customer \<ge>
        (case wp_min_purchase_amount product of None \<Rightarrow> 0 | Some m \<Rightarrow> m))
   \<and> (c_available_funds customer = 0 \<and> wp_min_purchase_amount product = None
        \<longrightarrow> funds_match customer product)"
  by (simp add: funds_match_def or_zero_def split: option.splits)

text \<open>Scenario 5: no funds against a null minimum purchase amount.\<close>

theorem funds_match_threshold_witness:
  "c_available_funds (joined_row customer_2 None) = 0
   \<and> wp_min_purchase_amount product_P3 = None
   \<and> funds_match (joined_row customer_2 None) product_P3"
proof -
  have c: "c_available_funds (joined_row customer_2 None) = 0"
    by (simp add: joined_row_def customer_2_def)
  have p: "wp_min_purchase_amount product_P3 = None"
    by (simp add: product_P3_def)
  show ?thesis
    using c p funds_match_threshold [of "joined_row customer_2 None" product_P3] by simp
qed

text \<open>
  C5.  When the customer lookup yields no row, \<open>analyze_suitability\<close>
  returns the error mapping that names the customer and sends no statement
  to the product table.  When a customer row was found and the product
  lookup yields no row, it returns the error mapping that names the
  product.  Both are return values, not exceptions.
\<close>

theorem not_found_returned_as_data:
  "(customer_lookup API_KEY hdrs db customer_id = (sent, Inr (Return []))
      \<longrightarrow> analyze_suitability API_KEY hdrs db customer_id product_code =
            (sent, Inr (ErrorMapping ''Customer not found''))
          \<and> filter product_statement
              (fst (analyze_suitability API_KEY hdrs db customer_id product_code)) = [])
   \<and> (customer_lookup API_KEY hdrs db customer_id = (sent, Inr (Return (customer # others)))
        \<and> select_product_by_code db product_code = None
      \<longrightarrow> analyze_suitability API_KEY hdrs db customer_id product_code =
            (sent @ [SelectProductByCode product_code],
             Inr (ErrorMapping ''Product not found'')))"
proof (intro conjI impI)
  assume a: "customer_lookup API_KEY hdrs db customer_id = (sent, Inr (Return []))"
  then show r: "analyze_suitability API_KEY hdrs db customer_id product_code =
            (sent, Inr (ErrorMapping ''Customer not found''))"
    by (simp add: analyze_suitability_def)
  have "filter product_statement sent = []"
    using lookup_sends_no_product_statement [of API_KEY hdrs db customer_id] a by simp
  then show "filter product_statement
              (fst (analyze_suitability API_KEY hdrs db customer_id product_code)) = []"
    by (simp add: r)
next
  assume "customer_lookup API_KEY hdrs db customer_id = (sent, Inr (Return (customer # others)))
        \<and> select_product_by_code db product_code = None"
  then show "analyze_suitability API_KEY hdrs db customer_id product_code =
            (sent @ [SelectProductByCode product_code],
             Inr (ErrorMapping ''Product not found''))"
    by (simp add: analyze_suitability_def)
qed

text \<open>Scenario 4, and the known customer 1 with an unknown product code.\<close>

theorem not_found_returned_as_data_witness:
  "customer_lookup ''k'' None example_db 9999 =
     ([SelectCustomers [CustomerIdEq 9999] None], Inr (Return []))
   \<and> analyze_suitability ''k'' None example_db 9999 ''X'' =
       ([SelectCustomers [CustomerIdEq 9999] None], Inr (ErrorMapping ''Customer not found''))
   \<and> customer_lookup ''k'' None example_db 1 =
       ([SelectCustomers [CustomerIdEq 1] None],
        Inr (Return [joined_row customer_1 (Some persona_1)]))
   \<and> select_product_by_code example_db ''X'' = None
   \<and> analyze_suitability ''k'' None example_db 1 ''X'' =
       ([SelectCustomers [CustomerIdEq 1] None, SelectProductByCode ''X''],
        Inr (ErrorMapping ''Product not found''))"
  using lookup_customer_9999 lookup_customer_1 fetch_X
    not_found_returned_as_data [of "''k''" None example_db 9999
      "[SelectCustomers [CustomerIdEq 9999] None]" "''X''" "joined_row customer_1 (Some persona_1)" "[]"]
    not_found_returned_as_data [of "''k''" None example_db 1
      "[SelectCustomers [CustomerIdEq 1] None]" "''X''" "joined_row customer_1 (Some persona_1)" "[]"]
  by simp

section \<open>Claims about the searches\<close>

text \<open>
  C6, as amended.  On a store that keeps \<open>customer_id\<close> unique in
  \<open>customer_info\<close> and in \<open>customer_persona\<close>, a search with only a
  non-zero \<open>customer_id\<close> sends one statement with the one predicate and
  returns at most one row, whose \<open>customer_id\<close> is the supplied value (and
  raises \<open>OverflowError\<close> when the value does not fit 64 bits).
\<close>

theorem customer_id_search_unique:
  assumes "customer_id \<noteq> 0"
    and "distinct (map ci_customer_id (customer_info db))"
    and "distinct (map cp_customer_id (customer_persona db))"
  shows "\<exists>rows. search_customers db (Some customer_id) None None =
            ([SelectCustomers [CustomerIdEq customer_id] None],
             if int64 customer_id then Inr rows else Inl OverflowError)
          \<and> length rows \<le> 1
          \<and> (\<forall>r \<in> set rows. c_customer_id r = customer_id)"
proof -
  let ?rows = "filter (\<lambda>r. c_customer_id r = customer_id)
                 (left_join (customer_info db) (customer_persona db))"
  have "search_customers db (Some customer_id) None None =
            ([SelectCustomers [CustomerIdEq customer_id] None],
             if int64 customer_id then Inr ?rows else Inl OverflowError)"
    using assms(1)
    by (simp add: search_customers_def truthy_int_def truthy_str_def select_customers_def)
  moreover have "length ?rows \<le> 1"
    using left_join_key_once [OF assms(2,3)] by simp
  moreover have "\<forall>r \<in> set ?rows. c_customer_id r = customer_id"
    by simp
  ultimately show ?thesis by blast
qed

text \<open>The search for customer 1.\<close>

theorem customer_id_search_unique_witness:
  "(1::int) \<noteq> 0
   \<and> distinct (map ci_customer_id (customer_info example_db))
   \<and> distinct (map cp_customer_id (customer_persona example_db))
   \<and> search_customers example_db (Some 1) None None =
       ([SelectCustomers [CustomerIdEq 1] None],
        Inr [joined_row customer_1 (Some persona_1)])"
proof -
  have h1: "(1::int) \<noteq> 0" by simp
  have h2: "distinct (map ci_customer_id (customer_info example_db))"
    by (simp add: example_defs)
  have h3: "distinct (map cp_customer_id (customer_persona example_db))"
    by (simp add: example_defs)
  have run: "search_customers example_db (Some 1) None None =
       ([SelectCustomers [CustomerIdEq 1] None],
        Inr [joined_row customer_1 (Some persona_1)])"
    by (simp add: search_customers_def truthy_int_def truthy_str_def
        select_customers_def int64_def joined_row_def example_defs)
  show ?thesis
    using h1 h2 h3 run customer_id_search_unique [OF h1 h2 h3] by simp
qed

text \<open>
  C6 as stated fails for \<open>customer_id = 0\<close>: the value is false in Python, no
  predicate is added, and the default listing comes back, here with two
  rows, neither with \<open>customer_id\<close> 0.
\<close>

theorem customer_id_zero_counterexample:
  "distinct (map ci_customer_id (customer_info example_db))
   \<and> distinct (map cp_customer_id (customer_persona example_db))
   \<and> map_sum id (map c_customer_id) (snd (search_customers example_db (Some 0) None None))
       = Inr [1, 2]"
  by (simp add: search_customers_def truthy_int_def truthy_str_def
        select_customers_def sql_limit_def joined_row_def example_defs)

text \<open>
  C7, as amended.  Every record that \<open>search_wealth_products\<close> returns
  equals each supplied non-empty exact-match filter in its column
  (\<open>sales_type\<close>, \<open>product_type\<close>, \<open>product_status\<close>, \<open>fund_raising\<close>,
  \<open>risk_level\<close>, \<open>product_code\<close>), has a minimum purchase amount that is
  not null and at most \<open>max_min_purchase\<close> when that is supplied, and has
  the on-sale status when \<open>product_status\<close> is left at its default.
\<close>

theorem product_search_filters:
  assumes "snd (search_wealth_products db product_name product_code sales_type product_type
              product_status fund_raising risk_level issuer max_min_purchase limit) = Inr rows"
    and "p \<in> set rows"
  shows "(\<forall>v. sales_type = Some v \<and> v \<noteq> [] \<longrightarrow> wp_sales_type p = v)
     \<and> (\<forall>v. product_type = Some v \<and> v \<noteq> [] \<longrightarrow> wp_product_type p = v)
     \<and> (product_status \<noteq> [] \<longrightarrow> wp_product_status p = product_status)
     \<and> (\<forall>v. fund_raising = Some v \<and> v \<noteq> [] \<longrightarrow> wp_fund_raising p = v)
     \<and> (\<forall>v. risk_level = Some v \<and> v \<noteq> [] \<longrightarrow> wp_risk_level p = Some v)
     \<and> (\<forall>v. product_code = Some v \<and> v \<noteq> [] \<longrightarrow> wp_product_code p = v)
     \<and> (\<forall>x. max_min_purchase = Some x
            \<longrightarrow> (\<exists>m. wp_min_purchase_amount p = Some m \<and> m \<le> x))
     \<and> (product_status = on_sale \<longrightarrow> wp_product_status p = on_sale)"
proof -
  let ?filters = "[(Col_sales_type, sales_type),
             (Col_product_type, product_type),
             (Col_product_status, Some product_status),
             (Col_fund_raising, fund_raising),
             (Col_risk_level, risk_level),
             (Col_product_code, product_code)]"
  let ?clauses = "filter_clauses ?filters @
            (if truthy_str product_name then [ProductNameLike (''%'' @ the product_name @ ''%'')] else []) @
            (if truthy_str issuer then [IssuerLike (''%'' @ the issuer @ ''%'')] else []) @
            (case max_min_purchase of None \<Rightarrow> [] | Some bound \<Rightarrow> [MinPurchaseLe bound])"
  from assms(1) have sel: "select_products db ?clauses limit = Inr rows"
    by (simp only: search_wealth_products_def Let_def snd_conv)
  have holds: "product_clause_holds c p" if "c \<in> set ?clauses" for c
    using select_products_rows [OF sel assms(2) that] .
  have eq: "product_column_value key p = Some v"
    if "(key, Some v) \<in> set ?filters" and "v \<noteq> []" for key v
  proof -
    have "ColumnEq key v \<in> set ?clauses"
      using filter_clauses_member [OF that] by simp
    from holds [OF this] show ?thesis by simp
  qed
  have s1: "\<forall>v. sales_type = Some v \<and> v \<noteq> [] \<longrightarrow> wp_sales_type p = v"
    using eq [of Col_sales_type] by auto
  have s2: "\<forall>v. product_type = Some v \<and> v \<noteq> [] \<longrightarrow> wp_product_type p = v"
    using eq [of Col_product_type] by auto
  have s3: "product_status \<noteq> [] \<longrightarrow> wp_product_status p = product_status"
    using eq [of Col_product_status product_status] by simp
  have s4: "\<forall>v. fund_raising = Some v \<and> v \<noteq> [] \<longrightarrow> wp_fund_raising p = v"
    using eq [of Col_fund_raising] by auto
  have s5: "\<forall>v. risk_level = Some v \<and> v \<noteq> [] \<longrightarrow> wp_risk_level p = Some v"
    using eq [of Col_risk_level] by auto
  have s6: "\<forall>v. product_code = Some v \<and> v \<noteq> [] \<longrightarrow> wp_product_code p = v"
    using eq [of Col_product_code] by auto
  have s7: "\<forall>x. max_min_purchase = Some x
            \<longrightarrow> (\<exists>m. wp_min_purchase_amount p = Some m \<and> m \<le> x)"
  proof (intro allI impI)
    fix x assume "max_min_purchase = Some x"
    then have "MinPurchaseLe x \<in> set ?clauses" by simp
    from holds [OF this] show "\<exists>m. wp_min_purchase_amount p = Some m \<and> m \<le> x"
      by (simp split: option.splits)
  qed
  have s8: "product_status = on_sale \<longrightarrow> wp_product_status p = on_sale"
    using s3 on_sale_nonempty by simp
  from s1 s2 s3 s4 s5 s6 s7 s8 show ?thesis by blast
qed

text \<open>The self-operated products on sale that 20000 can buy.\<close>

theorem product_search_filters_witness:
  "snd (search_wealth_products example_db None None (Some ''own'') None on_sale None None None
       (Some 20000) default_limit) = Inr [product_P1]
   \<and> product_P1 \<in> set [product_P1]
   \<and> wp_sales_type product_P1 = ''own''
   \<and> wp_product_status product_P1 = on_sale
   \<and> (\<exists>m. wp_min_purchase_amount product_P1 = Some m \<and> m \<le> 20000)"
proof -
  have h1: "snd (search_wealth_products example_db None None (Some ''own'') None on_sale None
       None None (Some 20000) default_limit) = Inr [product_P1]"
    by (simp add: search_on_sale_affordable)
  have h2: "product_P1 \<in> set [product_P1]" by simp
  show ?thesis
    using h1 h2 product_search_filters [OF h1 h2] by simp
qed

text \<open>
  C7 as stated fails for a filter supplied as the empty string: it is false
  in Python, no predicate is added, and records with other values come back.
\<close>

theorem empty_filter_counterexample:
  "map_sum id (map wp_sales_type)
     (snd (search_wealth_products example_db None None (Some []) None on_sale None None None
             None 10))
   = Inr [''own'', ''agency'', ''agency'']"
  by (simp add: search_wealth_products_def truthy_str_def select_products_def int64_def
      sql_limit_def on_sale_def example_defs)

text \<open>
  C8, as amended.  \<open>search_wealth_products\<close> with a limit that is not
  negative returns at most that many records, so at most 10 under the
  default; \<open>search_customers\<close> without filters returns at most 10 records.
\<close>

theorem result_count_capped:
  "(0 \<le> limit
      \<and> snd (search_wealth_products db product_name product_code sales_type product_type
               product_status fund_raising risk_level issuer max_min_purchase limit) = Inr rows
     \<longrightarrow> int (length rows) \<le> limit)
   \<and> (snd (search_wealth_products db product_name product_code sales_type product_type
               product_status fund_raising risk_level issuer max_min_purchase default_limit)
         = Inr rows'
     \<longrightarrow> length rows' \<le> 10)
   \<and> (\<exists>listing. search_customers db None None None =
                    ([SelectCustomers [] (Some 10)], Inr listing)
          \<and> length listing \<le> 10)"
proof (intro conjI impI)
  assume a: "0 \<le> limit
      \<and> snd (search_wealth_products db product_name product_code sales_type product_type
               product_status fund_raising risk_level issuer max_min_purchase limit) = Inr rows"
  then obtain clauses where "select_products db clauses limit = Inr rows"
    using search_products_select by blast
  then obtain xs where "rows = sql_limit limit xs"
    by (auto simp: select_products_def split: if_splits)
  with a show "int (length rows) \<le> limit"
    using sql_limit_length [of limit xs] by simp
next
  assume "snd (search_wealth_products db product_name product_code sales_type product_type
               product_status fund_raising risk_level issuer max_min_purchase default_limit)
         = Inr rows'"
  then obtain clauses where "select_products db clauses default_limit = Inr rows'"
    using search_products_select by blast
  then obtain xs where "rows' = sql_limit 10 xs"
    by (auto simp: select_products_def default_limit_def split: if_splits)
  then show "length rows' \<le> 10"
    by (simp add: sql_limit_def)
next
  show "\<exists>listing. search_customers db None None None =
                    ([SelectCustomers [] (Some 10)], Inr listing)
          \<and> length listing \<le> 10"
    by (simp add: search_customers_def truthy_int_def truthy_str_def select_customers_def
        sql_limit_def)
qed

text \<open>Three products on sale, limit 2.\<close>

theorem result_count_capped_witness:
  "(0::int) \<le> 2
   \<and> snd (search_wealth_products example_db None None None None on_sale None None None None 2)
       = Inr [product_P1, product_P2]
   \<and> int (length [product_P1, product_P2]) \<le> 2"
proof -
  have h: "snd (search_wealth_products example_db None None None None on_sale None None None None 2)
       = Inr [product_P1, product_P2]"
    by (simp add: search_wealth_products_def truthy_str_def select_products_def int64_def
      sql_limit_def on_sale_def example_defs)
  show ?thesis
    using h result_count_capped [of 2 example_db None None None None on_sale None None None None
        "[product_P1, product_P2]" "[]"]
    by simp
qed

text \<open>
  C8 as stated fails for a negative limit, which SQLite reads as no limit:
  with limit -1 all three products come back.
\<close>

theorem negative_limit_counterexample:
  "map_sum id length
     (snd (search_wealth_products example_db None None None None on_sale None None None None (- 1)))
   = Inr 3"
  by (simp add: search_wealth_products_def truthy_str_def select_products_def int64_def
      sql_limit_def on_sale_def example_defs)

section \<open>Claims about the authentication wrapper\<close>

text \<open>
  What the wrapper does with a header dictionary, in the order of its
  checks: a header value that is missing or empty counts as absent, and
  the Authorization value is read only when no API key is present.
\<close>

lemma require_auth_header_cases:
  "(\<not> truthy_str (api_key_header headers) \<and> \<not> truthy_str (authorization_header headers)
      \<longrightarrow> require_auth API_KEY (Some headers) func =
            ([], Inr (ErrorCode ''Missing authentication. Provide X-API-Key header.'' 401)))
   \<and> (api_key_header headers = Some key \<and> key \<noteq> [] \<and> key \<noteq> API_KEY
      \<longrightarrow> require_auth API_KEY (Some headers) func =
            ([], Inr (ErrorCode ''Invalid API Key'' 401)))
   \<and> (\<not> truthy_str (api_key_header headers) \<and> authorization_header headers = Some auth
        \<and> startswith auth ''Bearer '' \<and> drop 7 auth \<noteq> API_KEY
      \<longrightarrow> require_auth API_KEY (Some headers) func =
            ([], Inr (ErrorCode ''Invalid Bearer Token'' 401)))
   \<and> (\<not> truthy_str (api_key_header headers) \<and> authorization_header headers = Some auth
        \<and> auth \<noteq> [] \<and> \<not> startswith auth ''Bearer ''
      \<longrightarrow> require_auth API_KEY (Some headers) func =
            ([], Inr (ErrorCode ''Invalid Authorization format'' 401)))"
proof (intro conjI impI)
  assume "\<not> truthy_str (api_key_header headers) \<and> \<not> truthy_str (authorization_header headers)"
  then show "require_auth API_KEY (Some headers) func =
            ([], Inr (ErrorCode ''Missing authentication. Provide X-API-Key header.'' 401))"
    by (simp add: require_auth_def)
next
  assume "api_key_header headers = Some key \<and> key \<noteq> [] \<and> key \<noteq> API_KEY"
  then show "require_auth API_KEY (Some headers) func =
            ([], Inr (ErrorCode ''Invalid API Key'' 401))"
    by (simp add: require_auth_def truthy_str_def)
next
  assume a: "\<not> truthy_str (api_key_header headers) \<and> authorization_header headers = Some auth
        \<and> startswith auth ''Bearer '' \<and> drop 7 auth \<noteq> API_KEY"
  then have "auth \<noteq> []" by (auto simp: startswith_def)
  with a show "require_auth API_KEY (Some headers) func =
            ([], Inr (ErrorCode ''Invalid Bearer Token'' 401))"
    by (simp add: require_auth_def truthy_str_def)
next
  assume "\<not> truthy_str (api_key_header headers) \<and> authorization_header headers = Some auth
        \<and> auth \<noteq> [] \<and> \<not> startswith auth ''Bearer ''"
  then show "require_auth API_KEY (Some headers) func =
            ([], Inr (ErrorCode ''Invalid Authorization format'' 401))"
    by (simp add: require_auth_def truthy_str_def)
qed

text \<open>The empty dictionary: nothing is presented, whatever the secret.\<close>

lemma require_auth_no_headers:
  "require_auth API_KEY (Some Map.empty) func =
     ([], Inr (ErrorCode ''Missing authentication. Provide X-API-Key header.'' 401))"
  by (simp add: require_auth_def header_defs)

text \<open>The \<open>except\<close> branch: were the call to raise, the wrapper would delegate.\<close>

lemma require_auth_raising:
  "require_auth API_KEY None func = (fst func, map_sum id Return (snd func))"
  by (simp add: require_auth_def)

text \<open>
  C9.  The claim has every call on the local channel proceed without
  authentication, as the docstring of \<open>require_auth\<close> (effective in SSE
  mode only) and the comment in its \<open>except\<close> branch (stdio: skip the
  check) intend.  The code does not do so: the check is skipped only when
  \<open>get_http_headers\<close> raises, and the library never raises.  On the stdio
  channel it returns the empty dictionary, so the wrapper answers every
  call with the missing-authentication mapping, code 401, and the wrapped
  operation sends nothing to the store.
\<close>

theorem local_channel_rejected:
  "fastmcp_get_http_headers channel \<noteq> None
   \<and> require_auth API_KEY (fastmcp_get_http_headers Stdio) func =
       ([], Inr (ErrorCode ''Missing authentication. Provide X-API-Key header.'' 401))
   \<and> require_auth API_KEY (fastmcp_get_http_headers Stdio)
         (analyze_suitability API_KEY (fastmcp_get_http_headers Stdio) example_db 1 ''P1'') =
       ([], Inr (ErrorCode ''Missing authentication. Provide X-API-Key header.'' 401))"
proof -
  have "fastmcp_get_http_headers channel \<noteq> None"
    by (cases channel) simp_all
  then show ?thesis
    by (simp add: require_auth_no_headers)
qed

section \<open>Claims about filters that are false in Python\<close>

text \<open>
  C10.  \<open>search_customers\<close> treats \<open>customer_id = 0\<close>, \<open>name = ""\<close> and
  \<open>id_card = ""\<close> as it treats an absent argument: the statement sent and
  the outcome are the same.  With all three arguments false the call
  returns the first 10 rows of the unfiltered join, and such a row need not
  have \<open>customer_id\<close> 0.
\<close>

theorem falsy_filters_ignored:
  "search_customers db (Some 0) name id_card = search_customers db None name id_card
   \<and> search_customers db customer_id (Some []) id_card = search_customers db customer_id None id_card
   \<and> search_customers db customer_id name (Some []) = search_customers db customer_id name None
   \<and> (\<not> truthy_int customer_id \<and> \<not> truthy_str name \<and> \<not> truthy_str id_card
      \<longrightarrow> search_customers db customer_id name id_card =
            ([SelectCustomers [] (Some 10)],
             Inr (take 10 (left_join (customer_info db) (customer_persona db)))))
   \<and> (\<exists>store rows r. snd (search_customers store (Some 0) (Some []) (Some [])) = Inr rows
          \<and> r \<in> set rows \<and> c_customer_id r \<noteq> 0)"
proof (intro conjI impI)
  show "search_customers db (Some 0) name id_card = search_customers db None name id_card"
    by (simp add: search_customers_def truthy_int_def)
  show "search_customers db customer_id (Some []) id_card = search_customers db customer_id None id_card"
    by (simp add: search_customers_def truthy_str_def)
  show "search_customers db customer_id name (Some []) = search_customers db customer_id name None"
    by (simp add: search_customers_def truthy_str_def)
  show "search_customers db customer_id name id_card =
            ([SelectCustomers [] (Some 10)],
             Inr (take 10 (left_join (customer_info db) (customer_persona db))))"
    if "\<not> truthy_int customer_id \<and> \<not> truthy_str name \<and> \<not> truthy_str id_card"
    using that by (simp add: search_customers_def select_customers_def sql_limit_def)
  have "snd (search_customers example_db (Some 0) (Some []) (Some [])) =
          Inr [joined_row customer_1 (Some persona_1), joined_row customer_2 None]"
    by (simp add: search_customers_def truthy_int_def truthy_str_def select_customers_def
        sql_limit_def example_defs)
  moreover have "c_customer_id (joined_row customer_1 (Some persona_1)) \<noteq> 0"
    by (simp add: joined_row_id customer_1_def)
  ultimately show "\<exists>store rows r. snd (search_customers store (Some 0) (Some []) (Some [])) = Inr rows
          \<and> r \<in> set rows \<and> c_customer_id r \<noteq> 0"
    by (metis list.set_intros(1))
qed

text \<open>The call with \<open>customer_id = 0\<close> and \<open>name = ""\<close> on the small store.\<close>

theorem falsy_filters_ignored_witness:
  "\<not> truthy_int (Some 0) \<and> \<not> truthy_str (Some []) \<and> \<not> truthy_str None
   \<and> search_customers example_db (Some 0) (Some []) None =
       ([SelectCustomers [] (Some 10)],
        Inr [joined_row customer_1 (Some persona_1), joined_row customer_2 None])"
proof -
  have h: "\<not> truthy_int (Some 0) \<and> \<not> truthy_str (Some []) \<and> \<not> truthy_str None"
    by (simp add: truthy_int_def truthy_str_def)
  have j: "take 10 (left_join (customer_info example_db) (customer_persona example_db)) =
     [joined_row customer_1 (Some persona_1), joined_row customer_2 None]"
    by (simp add: example_defs)
  have "search_customers example_db (Some 0) (Some []) None =
       ([SelectCustomers [] (Some 10)],
        Inr (take 10 (left_join (customer_info example_db) (customer_persona example_db))))"
    using h falsy_filters_ignored [where db = example_db and customer_id = "Some 0"
        and name = "Some []" and id_card = None]
    by blast
  with h j show ?thesis by simp
qed

end
